theory Spec2Isabelle
  imports Complex_Main "HOL-Library.Char_ord" "HOL-Library.List_Lexorder"
begin

section \<open>The study-buddy service of \<^verbatim>\<open>main.py\<close>\<close>

text \<open>
  The service has five request handlers (and a health check) over one SQLite file with two
  tables. Each handler is a Python \<^verbatim>\<open>try\<close> block whose \<^verbatim>\<open>except Exception\<close>
  clause re-raises every exception as \<^verbatim>\<open>HTTPException(status_code=500)\<close>. The handlers are modelled as
  functions from the request and the database to a result and the database afterwards;
  an exception is a value of type \<open>exn\<close> on the left of a sum.

  What lies outside the file is an argument of the model: Python's salted string
  \<^verbatim>\<open>hash\<close>, \<^verbatim>\<open>hashlib.md5(...).hexdigest()\<close>, the text that the language model
  returns (or the exception it raises), and the clock. The argument \<open>now\<close> is the text of
  \<^verbatim>\<open>str(datetime.now())\<close>.
\<close>

subsection \<open>Exceptions\<close>

datatype exn =
    HTTPException int
  | IntegrityError
  | JSONDecodeError
  | GatewayError

text \<open>
  \<^verbatim>\<open>except Exception as e: raise HTTPException(status_code=500, detail=str(e))\<close>.
  Every constructor of \<open>exn\<close> is a subclass of \<^verbatim>\<open>Exception\<close> in Python, also
  \<^verbatim>\<open>HTTPException\<close> itself, so the clause catches all of them. Only the status code of
  the new exception is kept; its detail text is left out. \<open>GatewayError\<close> stands for
  whatever the call of the language model raises.
\<close>

definition except_Exception :: "exn + 'a \<Rightarrow> exn + 'a" where
  "except_Exception r = (case r of Inl e \<Rightarrow> Inl (HTTPException 500) | Inr v \<Rightarrow> Inr v)"

subsection \<open>The two tables\<close>

text \<open>
  Table \<^verbatim>\<open>users\<close> (columns id, name, subjects, level, xp) and table
  \<^verbatim>\<open>quiz_history\<close> (columns id, user_id, subject, score, total_questions, timestamp).
  A table is the list of its rows in insertion order.
\<close>

record users_row =
  u_id :: string
  u_name :: string
  u_subjects :: string
  u_level :: int
  u_xp :: int

record quiz_history_row =
  qh_id :: string
  qh_user_id :: string
  qh_subject :: string
  qh_score :: int
  qh_total_questions :: int
  qh_timestamp :: string

record db =
  users :: "users_row list"
  quiz_history :: "quiz_history_row list"

text \<open>The state after \<^verbatim>\<open>init_db\<close> on a fresh file: both tables exist and are empty.\<close>

definition init_db :: db where
  "init_db = \<lparr>users = [], quiz_history = []\<rparr>"

text \<open>
  \<^verbatim>\<open>INSERT INTO users ...\<close> and \<^verbatim>\<open>INSERT INTO quiz_history ...\<close>: column
  \<^verbatim>\<open>id\<close> is \<^verbatim>\<open>TEXT PRIMARY KEY\<close>, so an insert whose id is already in the table raises
  \<^verbatim>\<open>sqlite3.IntegrityError\<close> and adds nothing.
\<close>

definition insert_user :: "users_row \<Rightarrow> db \<Rightarrow> exn + db" where
  "insert_user r d =
     (if u_id r \<in> set (map u_id (users d)) then Inl IntegrityError
      else Inr (d\<lparr>users := users d @ [r]\<rparr>))"

definition insert_quiz_history :: "quiz_history_row \<Rightarrow> db \<Rightarrow> exn + db" where
  "insert_quiz_history r d =
     (if qh_id r \<in> set (map qh_id (quiz_history d)) then Inl IntegrityError
      else Inr (d\<lparr>quiz_history := quiz_history d @ [r]\<rparr>))"

subsection \<open>The clock\<close>

text \<open>
  \<^verbatim>\<open>datetime.now().isoformat()\<close> is \<^verbatim>\<open>str(datetime.now())\<close> with the blank between
  date and time replaced by \<^verbatim>\<open>T\<close>.
\<close>

definition isoformat :: "string \<Rightarrow> string" where
  "isoformat now = map (\<lambda>c. if c = CHR '' '' then CHR ''T'' else c) now"

subsection \<open>Quiz submission\<close>

text \<open>Class \<^verbatim>\<open>QuizSubmission\<close>: user_id, quiz_id, answers, subject.\<close>

record QuizSubmission =
  s_user_id :: string
  s_quiz_id :: string
  s_answers :: "string list"
  s_subject :: string

text \<open>The dictionary that \<^verbatim>\<open>submit_quiz\<close> returns.\<close>

record submit_response =
  score :: int
  total_questions :: int
  percentage :: int
  message :: string
  xp_earned :: int

text \<open>
  Line 176: \<^verbatim>\<open>score = min(90, max(60, hash(submission.user_id) % 40 + 60))\<close>.
  Python's \<^verbatim>\<open>%\<close> with a positive right operand is the floored remainder, as is
  \<open>mod\<close> on \<open>int\<close>.
\<close>

definition quiz_score :: "(string \<Rightarrow> int) \<Rightarrow> string \<Rightarrow> int" where
  "quiz_score hash uid = min 90 (max 60 (hash uid mod 40 + 60))"

definition submit_quiz_body ::
  "(string \<Rightarrow> int) \<Rightarrow> string \<Rightarrow> QuizSubmission \<Rightarrow> db \<Rightarrow> exn + (submit_response \<times> db)" where
  "submit_quiz_body hash now submission d =
     (let score = quiz_score hash (s_user_id submission) in
      case insert_quiz_history
             \<lparr>qh_id = s_quiz_id submission, qh_user_id = s_user_id submission,
              qh_subject = s_subject submission, qh_score = score,
              qh_total_questions = int (length (s_answers submission)),
              qh_timestamp = isoformat now\<rparr> d of
        Inl e \<Rightarrow> Inl e
      | Inr d' \<Rightarrow>
          Inr (\<lparr>score = score,
                total_questions = int (length (s_answers submission)),
                percentage = score,
                message = (if score \<ge> 80 then ''Great job!'' else ''Keep practicing!''),
                xp_earned = score div 10\<rparr>, d'))"

text \<open>
  The handler: the outcome and the database afterwards. When the body raises, nothing
  was committed and the database is the one before the request.
\<close>

definition submit_quiz ::
  "(string \<Rightarrow> int) \<Rightarrow> string \<Rightarrow> QuizSubmission \<Rightarrow> db \<Rightarrow> (exn + submit_response) \<times> db" where
  "submit_quiz hash now submission d =
     (case except_Exception (submit_quiz_body hash now submission d) of
        Inl e \<Rightarrow> (Inl e, d)
      | Inr (r, d') \<Rightarrow> (Inr r, d'))"

subsection \<open>User creation\<close>

text \<open>Class \<^verbatim>\<open>User\<close>: name, subjects, grade_level.\<close>

record User =
  usr_name :: string
  usr_subjects :: "string list"
  usr_grade_level :: string

text \<open>The dictionary that \<^verbatim>\<open>create_user\<close> returns: user_id, message.\<close>

record create_user_response =
  cu_user_id :: string
  cu_message :: string

text \<open>
  \<open>md5\<close> stands for \<^verbatim>\<open>lambda s: hashlib.md5(s.encode()).hexdigest()\<close> and \<open>dumps\<close>
  for \<^verbatim>\<open>json.dumps\<close> on a list of strings.
\<close>

definition create_user_body ::
  "(string \<Rightarrow> string) \<Rightarrow> (string list \<Rightarrow> string) \<Rightarrow> string \<Rightarrow> User \<Rightarrow> db
   \<Rightarrow> exn + (create_user_response \<times> db)" where
  "create_user_body md5 dumps now user d =
     (let user_id = md5 (usr_name user @ now) in
      case insert_user
             \<lparr>u_id = user_id, u_name = usr_name user, u_subjects = dumps (usr_subjects user),
              u_level = 1, u_xp = 0\<rparr> d of
        Inl e \<Rightarrow> Inl e
      | Inr d' \<Rightarrow>
          Inr (\<lparr>cu_user_id = user_id, cu_message = ''User created successfully''\<rparr>, d'))"

definition create_user ::
  "(string \<Rightarrow> string) \<Rightarrow> (string list \<Rightarrow> string) \<Rightarrow> string \<Rightarrow> User \<Rightarrow> db
   \<Rightarrow> (exn + create_user_response) \<times> db" where
  "create_user md5 dumps now user d =
     (case except_Exception (create_user_body md5 dumps now user d) of
        Inl e \<Rightarrow> (Inl e, d)
      | Inr (r, d') \<Rightarrow> (Inr r, d'))"

subsection \<open>User statistics\<close>

text \<open>
  \<^verbatim>\<open>SELECT * FROM users WHERE id = ?\<close> followed by \<^verbatim>\<open>fetchone()\<close>: the row with
  that id, or \<^verbatim>\<open>None\<close>.
\<close>

definition select_user :: "string \<Rightarrow> db \<Rightarrow> users_row option" where
  "select_user user_id d = find (\<lambda>r. u_id r = user_id) (users d)"

text \<open>
  \<^verbatim>\<open>SELECT subject, AVG(score), COUNT(*) FROM quiz_history WHERE user_id = ? GROUP BY subject\<close>:
  one entry for every subject that has a row of this user. SQLite computes the groups by
  sorting on the subject, so they come in ascending order. \<^verbatim>\<open>AVG\<close> is the floating-point
  quotient of the sum by the count; the model keeps the exact quotient.
\<close>

record subject_stat =
  st_subject :: string
  st_average_score :: rat
  st_quiz_count :: int

definition select_subject_stats :: "string \<Rightarrow> db \<Rightarrow> subject_stat list" where
  "select_subject_stats user_id d =
     (let rows = filter (\<lambda>r. qh_user_id r = user_id) (quiz_history d) in
      map (\<lambda>subj.
             let scores = map qh_score (filter (\<lambda>r. qh_subject r = subj) rows) in
             \<lparr>st_subject = subj,
              st_average_score = of_int (sum_list scores) / of_int (int (length scores)),
              st_quiz_count = int (length scores)\<rparr>)
          (sort (remdups (map qh_subject rows))))"

text \<open>The dictionary that \<^verbatim>\<open>get_user_stats\<close> returns.\<close>

record stats_response =
  sr_user_id :: string
  sr_name :: string
  sr_level :: int
  sr_xp :: int
  subject_stats :: "subject_stat list"

text \<open>
  The body of the \<^verbatim>\<open>try\<close> block, lines 229 to 258. Line 247 raises
  \<^verbatim>\<open>HTTPException(status_code=404)\<close> inside the block.
\<close>

definition get_user_stats_body :: "string \<Rightarrow> db \<Rightarrow> exn + stats_response" where
  "get_user_stats_body user_id d =
     (let user_data = select_user user_id d;
          stats = select_subject_stats user_id d in
      case user_data of
        None \<Rightarrow> Inl (HTTPException 404)
      | Some u \<Rightarrow>
          Inr \<lparr>sr_user_id = u_id u, sr_name = u_name u, sr_level = u_level u, sr_xp = u_xp u,
               subject_stats = stats\<rparr>)"

text \<open>The handler: the body under the \<^verbatim>\<open>except Exception\<close> clause of line 260.\<close>

definition get_user_stats :: "string \<Rightarrow> db \<Rightarrow> exn + stats_response" where
  "get_user_stats user_id d = except_Exception (get_user_stats_body user_id d)"

subsection \<open>Chat\<close>

text \<open>
  The request only feeds the prompt, and the prompt only the language model, whose answer
  (\<^verbatim>\<open>response.text\<close>, or the exception raised on the way) is the argument
  \<open>response\<close>.
\<close>

record chat_response =
  ch_response :: string
  ch_timestamp :: string

definition chat_with_ai :: "string \<Rightarrow> exn + string \<Rightarrow> exn + chat_response" where
  "chat_with_ai now response =
     except_Exception
       (case response of
          Inl e \<Rightarrow> Inl e
        | Inr text \<Rightarrow> Inr \<lparr>ch_response = text, ch_timestamp = isoformat now\<rparr>)"

subsection \<open>Quiz generation\<close>

text \<open>
  What \<^verbatim>\<open>json.loads\<close> returns. A number with a fraction or an exponent is kept as its
  text, since Python makes a float of it.
\<close>

datatype json =
    JNull
  | JBool bool
  | JInt int
  | JFloat string
  | JString string
  | JArray "json list"
  | JObject "(string \<times> json) list"

text \<open>
  \<^verbatim>\<open>re.search(r'\[.*\]', text, re.DOTALL)\<close> and \<^verbatim>\<open>.group()\<close>. The search takes the
  leftmost position where the pattern matches, and there the longest match, since
  \<^verbatim>\<open>.*\<close> is greedy and with \<^verbatim>\<open>DOTALL\<close> runs over every character: the match
  starts at the first \<^verbatim>\<open>[\<close> and ends at the last \<^verbatim>\<open>]\<close> behind it. When no
  \<^verbatim>\<open>]\<close> follows the first \<^verbatim>\<open>[\<close>, none follows a later one either, and the
  search returns \<^verbatim>\<open>None\<close>.
\<close>

definition re_search :: "string \<Rightarrow> string option" where
  "re_search text =
     (case dropWhile (\<lambda>c. c \<noteq> CHR ''['') text of
        [] \<Rightarrow> None
      | c # rest \<Rightarrow>
          (if CHR '']'' \<in> set rest
           then Some (c # rev (dropWhile (\<lambda>c. c \<noteq> CHR '']'') (rev rest)))
           else None))"

text \<open>Class \<^verbatim>\<open>QuizRequest\<close>: subject, topic, difficulty, num_questions, user_id.\<close>

record QuizRequest =
  q_subject :: string
  q_topic :: string
  q_difficulty :: string
  q_num_questions :: int
  q_user_id :: string

text \<open>The dictionary that \<^verbatim>\<open>generate_quiz\<close> returns.\<close>

record quiz_response =
  quiz_id :: string
  questions :: json
  qz_subject :: string
  qz_topic :: string
  qz_difficulty :: string

text \<open>The list of lines 149 to 156.\<close>

definition fallback_quiz :: "string \<Rightarrow> json" where
  "fallback_quiz topic =
     JArray
       [JObject
          [(''question'', JString (''Sample question about '' @ topic @ ''?'')),
           (''options'',
              JArray [JString ''A) Option 1'', JString ''B) Option 2'',
                      JString ''C) Option 3'', JString ''D) Option 4'']),
           (''correct_answer'', JString ''A''),
           (''explanation'', JString ''This is a sample explanation.'')]]"

text \<open>
  Lines 141 to 166, with \<open>loads\<close> for \<^verbatim>\<open>json.loads\<close>. The call of
  \<^verbatim>\<open>json.loads\<close> in line 146 stands in the \<^verbatim>\<open>if\<close> branch with no handler of its
  own: what it raises leaves the body.
\<close>

definition generate_quiz_body ::
  "(string \<Rightarrow> exn + json) \<Rightarrow> (string \<Rightarrow> string) \<Rightarrow> string \<Rightarrow> exn + string \<Rightarrow> QuizRequest
   \<Rightarrow> exn + quiz_response" where
  "generate_quiz_body loads md5 now response request =
     (case response of
        Inl e \<Rightarrow> Inl e
      | Inr text \<Rightarrow>
          (case (case re_search text of
                   Some json_match \<Rightarrow> loads json_match
                 | None \<Rightarrow> Inr (fallback_quiz (q_topic request))) of
             Inl e \<Rightarrow> Inl e
           | Inr quiz_data \<Rightarrow>
               Inr \<lparr>quiz_id = md5 (q_user_id request @ now), questions = quiz_data,
                    qz_subject = q_subject request, qz_topic = q_topic request,
                    qz_difficulty = q_difficulty request\<rparr>))"

definition generate_quiz ::
  "(string \<Rightarrow> exn + json) \<Rightarrow> (string \<Rightarrow> string) \<Rightarrow> string \<Rightarrow> exn + string \<Rightarrow> QuizRequest
   \<Rightarrow> exn + quiz_response" where
  "generate_quiz loads md5 now response request =
     except_Exception (generate_quiz_body loads md5 now response request)"

subsection \<open>The service\<close>

text \<open>
  The functions that the handlers take from outside the file, in one record; the six
  routes with their request bodies (and, for the two routes that call the language model,
  the model's answer); and the dispatch of a request on a database.
\<close>

record externals =
  x_hash :: "string \<Rightarrow> int"
  x_md5 :: "string \<Rightarrow> string"
  x_dumps :: "string list \<Rightarrow> string"
  x_loads :: "string \<Rightarrow> exn + json"

text \<open>Class \<^verbatim>\<open>ChatRequest\<close>: message, user_id, subject.\<close>

record ChatRequest =
  c_message :: string
  c_user_id :: string
  c_subject :: "string option"

datatype request =
    Root
  | Chat ChatRequest "exn + string"
  | GenerateQuiz QuizRequest "exn + string"
  | SubmitQuiz QuizSubmission
  | CreateUser User
  | GetUserStats string

datatype response =
    RootResponse string
  | ChatResponse chat_response
  | QuizResponse quiz_response
  | SubmitResponse submit_response
  | CreateUserResponse create_user_response
  | StatsResponse stats_response

definition root :: string where
  "root = ''AI Study Buddy API is running!''"

fun handle :: "externals \<Rightarrow> string \<Rightarrow> request \<Rightarrow> db \<Rightarrow> (exn + response) \<times> db" where
  "handle x now Root d = (Inr (RootResponse root), d)"
| "handle x now (Chat request answer) d =
     (map_sum id ChatResponse (chat_with_ai now answer), d)"
| "handle x now (GenerateQuiz request answer) d =
     (map_sum id QuizResponse (generate_quiz (x_loads x) (x_md5 x) now answer request), d)"
| "handle x now (SubmitQuiz submission) d =
     (case submit_quiz (x_hash x) now submission d of
        (r, d') \<Rightarrow> (map_sum id SubmitResponse r, d'))"
| "handle x now (CreateUser user) d =
     (case create_user (x_md5 x) (x_dumps x) now user d of
        (r, d') \<Rightarrow> (map_sum id CreateUserResponse r, d'))"
| "handle x now (GetUserStats user_id) d =
     (map_sum id StatsResponse (get_user_stats user_id d), d)"

text \<open>A run of the service: the requests one after the other, each with its time.\<close>

fun serve :: "externals \<Rightarrow> (string \<times> request) list \<Rightarrow> db \<Rightarrow> db" where
  "serve x [] d = d"
| "serve x ((now, rq) # rest) d = serve x rest (snd (handle x now rq d))"

subsection \<open>Example values\<close>

text \<open>
  Concrete arguments for the examples below. \<open>ex_hash\<close> stands for the string hash of one
  Python process: any function into the integers can occur, since the hash is salted anew
  at every start of the interpreter.
\<close>

definition ex_hash :: "string \<Rightarrow> int" where
  "ex_hash u = int (length u) * 13"

definition ex_now :: string where
  "ex_now = ''2024-05-01 10:00:00.000001''"

definition ex_submission :: QuizSubmission where
  "ex_submission =
     \<lparr>s_user_id = ''u1'', s_quiz_id = ''q1'', s_answers = [''A'', ''C''], s_subject = ''Math''\<rparr>"

definition ex_submission2 :: QuizSubmission where
  "ex_submission2 =
     \<lparr>s_user_id = ''ana'', s_quiz_id = ''q2'', s_answers = [''B''], s_subject = ''Physics''\<rparr>"

definition ex_submission3 :: QuizSubmission where
  "ex_submission3 =
     \<lparr>s_user_id = ''u1'', s_quiz_id = ''q3'', s_answers = [], s_subject = ''Art''\<rparr>"

definition ex_row3 :: quiz_history_row where
  "ex_row3 = \<lparr>qh_id = ''q3'', qh_user_id = ''u1'', qh_subject = ''Art'', qh_score = 86,
              qh_total_questions = 0, qh_timestamp = ''2024-05-02T08:30:00''\<rparr>"

definition ex_response3 :: submit_response where
  "ex_response3 = \<lparr>score = 86, total_questions = 0, percentage = 86,
                   message = ''Great job!'', xp_earned = 8\<rparr>"

text \<open>
  A submission of another user, scored in another process: its hash function \<open>ex_hash2\<close>
  gives this user the value that \<open>ex_hash\<close> gives the user of \<open>ex_submission\<close>.
\<close>

definition ex_hash2 :: "string \<Rightarrow> int" where
  "ex_hash2 u = (if u = ''bob'' then 26 else - 7)"

definition ex_submission4 :: QuizSubmission where
  "ex_submission4 =
     \<lparr>s_user_id = ''bob'', s_quiz_id = ''q4'', s_answers = [''D'', ''A'', ''B''],
      s_subject = ''History''\<rparr>"

definition ex_row4 :: quiz_history_row where
  "ex_row4 = \<lparr>qh_id = ''q4'', qh_user_id = ''bob'', qh_subject = ''History'', qh_score = 86,
              qh_total_questions = 3, qh_timestamp = ''2024-06-11T17:45:10.250000''\<rparr>"

definition ex_response4 :: submit_response where
  "ex_response4 = \<lparr>score = 86, total_questions = 3, percentage = 86,
                   message = ''Great job!'', xp_earned = 8\<rparr>"

definition ex_row :: quiz_history_row where
  "ex_row = \<lparr>qh_id = ''q1'', qh_user_id = ''u1'', qh_subject = ''Math'', qh_score = 86,
             qh_total_questions = 2, qh_timestamp = ''2024-05-01T10:00:00.000001''\<rparr>"

definition ex_response :: submit_response where
  "ex_response = \<lparr>score = 86, total_questions = 2, percentage = 86,
                  message = ''Great job!'', xp_earned = 8\<rparr>"

text \<open>
  \<open>ex_md5\<close> agrees with MD5 on the two texts that the examples hash, \<open>ex_dumps\<close> with
  \<^verbatim>\<open>json.dumps\<close> on lists of strings that need no escaping, and \<open>ex_loads\<close> with
  \<^verbatim>\<open>json.loads\<close> on the three texts that the examples give it: \<^verbatim>\<open>[1]\<close> is the
  list of the number 1, and on \<^verbatim>\<open>[1] and answers [2]\<close> and on \<^verbatim>\<open>[see policy]\<close>
  \<^verbatim>\<open>json.loads\<close> raises \<^verbatim>\<open>JSONDecodeError\<close>.
\<close>

definition ex_md5 :: "string \<Rightarrow> string" where
  "ex_md5 s =
     (if s = ''Ana2024-05-01 10:00:00.000001'' then ''4bfbe63fe92bb98ccd36f9deffbeb3cf''
      else if s = ''u12024-05-01 10:00:00.000001'' then ''8b748bd98b99a9d548c6eeec454fa264''
      else ''d41d8cd98f00b204e9800998ecf8427e'')"

definition ex_loads :: "string \<Rightarrow> exn + json" where
  "ex_loads s = (if s = ''[1]'' then Inr (JArray [JInt 1]) else Inl JSONDecodeError)"

definition ex_quiz_request :: QuizRequest where
  "ex_quiz_request =
     \<lparr>q_subject = ''Math'', q_topic = ''Fractions'', q_difficulty = ''easy'',
      q_num_questions = 3, q_user_id = ''u1''\<rparr>"

fun ex_dumps :: "string list \<Rightarrow> string" where
  "ex_dumps [] = ''[]''"
| "ex_dumps (x # xs) =
     CHR ''['' # CHR 0x22 # x @
     foldr (\<lambda>s acc. CHR 0x22 # '', '' @ CHR 0x22 # s @ acc) xs [CHR 0x22, CHR '']'']"

definition ex_user :: User where
  "ex_user = \<lparr>usr_name = ''Ana'', usr_subjects = [''Math''], usr_grade_level = ''9''\<rparr>"

definition ex_users_row :: users_row where
  "ex_users_row =
     \<lparr>u_id = ''4bfbe63fe92bb98ccd36f9deffbeb3cf'', u_name = ''Ana'',
      u_subjects = [CHR ''['', CHR 0x22, CHR ''M'', CHR ''a'', CHR ''t'', CHR ''h'', CHR 0x22,
                    CHR '']''],
      u_level = 1, u_xp = 0\<rparr>"

definition ex_create_response :: create_user_response where
  "ex_create_response =
     \<lparr>cu_user_id = ''4bfbe63fe92bb98ccd36f9deffbeb3cf'',
      cu_message = ''User created successfully''\<rparr>"

text \<open>
  A submission that names, as its user, the identifier that \<^verbatim>\<open>create_user\<close> will
  derive for \<open>ex_user\<close> at \<open>ex_now\<close>, and the \<open>quiz_history\<close> row it leaves.
\<close>

definition ex_early_submission :: QuizSubmission where
  "ex_early_submission =
     \<lparr>s_user_id = ''4bfbe63fe92bb98ccd36f9deffbeb3cf'', s_quiz_id = ''q0'',
      s_answers = [''A''], s_subject = ''Math''\<rparr>"

definition ex_early_row :: quiz_history_row where
  "ex_early_row =
     \<lparr>qh_id = ''q0'', qh_user_id = ''4bfbe63fe92bb98ccd36f9deffbeb3cf'', qh_subject = ''Math'',
      qh_score = 76, qh_total_questions = 1, qh_timestamp = ''2024-04-30T09:00:00''\<rparr>"

definition ex_externals :: "(string \<Rightarrow> exn + json) \<Rightarrow> externals" where
  "ex_externals loads = \<lparr>x_hash = ex_hash, x_md5 = ex_md5, x_dumps = ex_dumps, x_loads = loads\<rparr>"

section \<open>Properties\<close>

subsection \<open>Quiz submission\<close>

lemma submit_quiz_Inr:
  assumes "submit_quiz hash now s d = (Inr r, d')"
  shows "s_quiz_id s \<notin> set (map qh_id (quiz_history d))"
    and "r = \<lparr>score = quiz_score hash (s_user_id s),
               total_questions = int (length (s_answers s)),
               percentage = quiz_score hash (s_user_id s),
               message = (if quiz_score hash (s_user_id s) \<ge> 80 then ''Great job!''
                          else ''Keep practicing!''),
               xp_earned = quiz_score hash (s_user_id s) div 10\<rparr>"
    and "d' = d\<lparr>quiz_history := quiz_history d @
               [\<lparr>qh_id = s_quiz_id s, qh_user_id = s_user_id s, qh_subject = s_subject s,
                 qh_score = quiz_score hash (s_user_id s),
                 qh_total_questions = int (length (s_answers s)),
                 qh_timestamp = isoformat now\<rparr>]\<rparr>"
  using assms
  by (auto simp: submit_quiz_def submit_quiz_body_def insert_quiz_history_def
      except_Exception_def Let_def split: if_splits)

lemma quiz_score_bounds: "60 \<le> quiz_score hash uid \<and> quiz_score hash uid \<le> 90"
  by (simp add: quiz_score_def)

lemma quiz_score_capped: "30 \<le> hash uid mod 40 \<Longrightarrow> quiz_score hash uid = 90"
  by (simp add: quiz_score_def)

lemma ex_submit:
  "submit_quiz ex_hash ex_now ex_submission init_db =
     (Inr ex_response, \<lparr>users = [], quiz_history = [ex_row]\<rparr>)"
  by (simp add: submit_quiz_def submit_quiz_body_def insert_quiz_history_def
      except_Exception_def quiz_score_def ex_hash_def ex_now_def ex_submission_def
      ex_row_def ex_response_def init_db_def isoformat_def)

lemma ex_submit3:
  "submit_quiz ex_hash ''2024-05-02 08:30:00'' ex_submission3
       \<lparr>users = [], quiz_history = [ex_row]\<rparr> =
     (Inr ex_response3, \<lparr>users = [], quiz_history = [ex_row, ex_row3]\<rparr>)"
  by (simp add: submit_quiz_def submit_quiz_body_def insert_quiz_history_def
      except_Exception_def quiz_score_def ex_hash_def ex_submission3_def
      ex_row_def ex_row3_def ex_response3_def isoformat_def)

lemma ex_submit4:
  "submit_quiz ex_hash2 ''2024-06-11 17:45:10.250000'' ex_submission4 init_db =
     (Inr ex_response4, \<lparr>users = [], quiz_history = [ex_row4]\<rparr>)"
  by (simp add: submit_quiz_def submit_quiz_body_def insert_quiz_history_def
      except_Exception_def quiz_score_def ex_hash2_def ex_submission4_def
      ex_row4_def ex_response4_def init_db_def isoformat_def)

lemma ex_submit2:
  "submit_quiz ex_hash ex_now ex_submission2 \<lparr>users = [], quiz_history = [ex_row]\<rparr> =
     (Inr \<lparr>score = 90, total_questions = 1, percentage = 90, message = ''Great job!'',
           xp_earned = 9\<rparr>,
      \<lparr>users = [], quiz_history =
         [ex_row, \<lparr>qh_id = ''q2'', qh_user_id = ''ana'', qh_subject = ''Physics'',
                   qh_score = 90, qh_total_questions = 1,
                   qh_timestamp = ''2024-05-01T10:00:00.000001''\<rparr>]\<rparr>)"
  by (simp add: submit_quiz_def submit_quiz_body_def insert_quiz_history_def
      except_Exception_def quiz_score_def ex_hash_def ex_now_def ex_submission2_def
      ex_row_def isoformat_def)

text \<open>
  C3. Every submission that returns a response returns a score between 60 and 99. The
  score is computed from the hash of the user identifier, by the expression of line 176,
  and from nothing else: a submission whose user identifier has the same hash value,
  under whatever hash function, with whatever answers, quiz identifier, subject, time and
  database, gets the same score; so does in particular any other submission of the same
  user identifier in the same process.
\<close>

theorem submit_quiz_score_in_60_99:
  assumes "submit_quiz hash now s d = (Inr r, d')"
  shows "60 \<le> score r \<and> score r \<le> 99 \<and>
         score r = min 90 (max 60 (hash (s_user_id s) mod 40 + 60)) \<and>
         (\<forall>hash2 now2 s2 d2 r2 d2'.
            submit_quiz hash2 now2 s2 d2 = (Inr r2, d2') \<and>
            hash2 (s_user_id s2) = hash (s_user_id s)
            \<longrightarrow> score r2 = score r) \<and>
         (\<forall>now2 s2 d2 r2 d2'.
            submit_quiz hash now2 s2 d2 = (Inr r2, d2') \<and> s_user_id s2 = s_user_id s
            \<longrightarrow> score r2 = score r)"
proof -
  have r: "score r = quiz_score hash (s_user_id s)"
    using submit_quiz_Inr(2)[OF assms] by simp
  have bounds: "60 \<le> score r" "score r \<le> 99"
    using quiz_score_bounds[of hash "s_user_id s"] r by simp_all
  have formula: "score r = min 90 (max 60 (hash (s_user_id s) mod 40 + 60))"
    using r by (simp add: quiz_score_def)
  have by_hash: "score r2 = score r"
    if "submit_quiz hash2 now2 s2 d2 = (Inr r2, d2')"
      "hash2 (s_user_id s2) = hash (s_user_id s)"
    for hash2 now2 s2 d2 r2 d2'
  proof -
    have "score r2 = quiz_score hash2 (s_user_id s2)"
      using submit_quiz_Inr(2)[OF that(1)] by simp
    then show ?thesis using that(2) r by (simp add: quiz_score_def)
  qed
  have by_user: "score r2 = score r"
    if "submit_quiz hash now2 s2 d2 = (Inr r2, d2')" "s_user_id s2 = s_user_id s"
    for now2 s2 d2 r2 d2'
    using by_hash[OF that(1)] that(2) by simp
  from bounds formula by_hash by_user show ?thesis by blast
qed

theorem submit_quiz_score_in_60_99_witness:
  "submit_quiz ex_hash ex_now ex_submission init_db =
     (Inr ex_response, \<lparr>users = [], quiz_history = [ex_row]\<rparr>) \<and>
   60 \<le> score ex_response \<and> score ex_response \<le> 99 \<and>
   score ex_response = min 90 (max 60 (ex_hash (s_user_id ex_submission) mod 40 + 60)) \<and>
   submit_quiz ex_hash2 ''2024-06-11 17:45:10.250000'' ex_submission4 init_db =
     (Inr ex_response4, \<lparr>users = [], quiz_history = [ex_row4]\<rparr>) \<and>
   ex_hash2 (s_user_id ex_submission4) = ex_hash (s_user_id ex_submission) \<and>
   score ex_response4 = score ex_response \<and>
   submit_quiz ex_hash ''2024-05-02 08:30:00'' ex_submission3
       \<lparr>users = [], quiz_history = [ex_row]\<rparr> =
     (Inr ex_response3, \<lparr>users = [], quiz_history = [ex_row, ex_row3]\<rparr>) \<and>
   s_user_id ex_submission3 = s_user_id ex_submission \<and>
   score ex_response3 = score ex_response"
proof -
  have u: "s_user_id ex_submission3 = s_user_id ex_submission"
    by (simp add: ex_submission_def ex_submission3_def)
  have h: "ex_hash2 (s_user_id ex_submission4) = ex_hash (s_user_id ex_submission)"
    by (simp add: ex_hash_def ex_hash2_def ex_submission_def ex_submission4_def)
  show ?thesis
    using ex_submit ex_submit3 ex_submit4 u h submit_quiz_score_in_60_99 [OF ex_submit]
    by blast
qed

text \<open>
  C5. In every response of a submission, \<open>xp_earned\<close> is the score divided by 10 (rounded
  down), \<open>percentage\<close> is the score, and the message is the positive one exactly when the
  score is at least 80 (and the other one otherwise).
\<close>

theorem submit_quiz_response_fields:
  assumes "submit_quiz hash now s d = (Inr r, d')"
  shows "xp_earned r = score r div 10 \<and> percentage r = score r \<and>
         (message r = ''Great job!'' \<longleftrightarrow> score r \<ge> 80) \<and>
         (message r = ''Keep practicing!'' \<longleftrightarrow> score r < 80)"
  using submit_quiz_Inr(2)[OF assms] by auto

theorem submit_quiz_response_fields_witness:
  "submit_quiz ex_hash ex_now ex_submission init_db =
     (Inr ex_response, \<lparr>users = [], quiz_history = [ex_row]\<rparr>) \<and>
   xp_earned ex_response = score ex_response div 10 \<and>
   percentage ex_response = score ex_response \<and>
   (message ex_response = ''Great job!'' \<longleftrightarrow> score ex_response \<ge> 80) \<and>
   (message ex_response = ''Keep practicing!'' \<longleftrightarrow> score ex_response < 80)"
  using ex_submit submit_quiz_response_fields [OF ex_submit] by simp

text \<open>
  C6. A submission that returns a response appends one row to \<open>quiz_history\<close>: the rows
  that were there are there unchanged and in place, followed by the new row, whose
  \<open>total_questions\<close> is the number of submitted answers. The \<open>users\<close> table is the same.
\<close>

theorem submit_quiz_inserts_one_row:
  assumes "submit_quiz hash now s d = (Inr r, d')"
  shows "\<exists>row. quiz_history d' = quiz_history d @ [row] \<and>
               qh_total_questions row = int (length (s_answers s)) \<and>
               qh_id row = s_quiz_id s \<and> qh_user_id row = s_user_id s \<and>
               qh_subject row = s_subject s \<and> qh_score row = score r \<and>
               users d' = users d"
  using submit_quiz_Inr(2,3)[OF assms] by simp

theorem submit_quiz_inserts_one_row_witness:
  "submit_quiz ex_hash ex_now ex_submission init_db =
     (Inr ex_response, \<lparr>users = [], quiz_history = [ex_row]\<rparr>) \<and>
   (\<exists>row. quiz_history \<lparr>users = [], quiz_history = [ex_row]\<rparr> = quiz_history init_db @ [row] \<and>
          qh_total_questions row = int (length (s_answers ex_submission)) \<and>
          qh_id row = s_quiz_id ex_submission \<and> qh_user_id row = s_user_id ex_submission \<and>
          qh_subject row = s_subject ex_submission \<and> qh_score row = score ex_response \<and>
          users \<lparr>users = [], quiz_history = [ex_row]\<rparr> = users init_db)"
  using ex_submit submit_quiz_inserts_one_row [OF ex_submit] by blast

text \<open>
  C9. The score of a response never exceeds 90: it lies between 60 and 90, and every
  hash value whose remainder modulo 40 is 30 or more, which line 176 would map to
  90..99 without the cap, gives 90.
\<close>

theorem submit_quiz_score_at_most_90:
  assumes "submit_quiz hash now s d = (Inr r, d')"
  shows "60 \<le> score r \<and> score r \<le> 90 \<and>
         (30 \<le> hash (s_user_id s) mod 40 \<longrightarrow> score r = 90)"
  using submit_quiz_Inr(2)[OF assms] quiz_score_bounds[of hash "s_user_id s"]
    quiz_score_capped[of hash "s_user_id s"] by simp

theorem submit_quiz_score_at_most_90_witness:
  "submit_quiz ex_hash ex_now ex_submission2 \<lparr>users = [], quiz_history = [ex_row]\<rparr> =
     (Inr \<lparr>score = 90, total_questions = 1, percentage = 90, message = ''Great job!'',
           xp_earned = 9\<rparr>,
      \<lparr>users = [], quiz_history =
         [ex_row, \<lparr>qh_id = ''q2'', qh_user_id = ''ana'', qh_subject = ''Physics'',
                   qh_score = 90, qh_total_questions = 1,
                   qh_timestamp = ''2024-05-01T10:00:00.000001''\<rparr>]\<rparr>) \<and>
   30 \<le> ex_hash (s_user_id ex_submission2) mod 40 \<and>
   ex_hash (s_user_id ex_submission2) mod 40 + 60 = 99 \<and>
   score \<lparr>score = 90, total_questions = 1, percentage = 90, message = ''Great job!'',
          xp_earned = 9\<rparr> = (90::int)"
proof -
  have h: "30 \<le> ex_hash (s_user_id ex_submission2) mod 40"
    by (simp add: ex_hash_def ex_submission2_def)
  have "ex_hash (s_user_id ex_submission2) mod 40 + 60 = 99"
    by (simp add: ex_hash_def ex_submission2_def)
  then show ?thesis
    using h ex_submit2 submit_quiz_score_at_most_90 [OF ex_submit2] by simp
qed

text \<open>
  C10. A submission whose quiz identifier is already the \<open>id\<close> of a \<open>quiz_history\<close> row
  fails with status 500 and leaves the database as it was.
\<close>

theorem submit_quiz_duplicate_id:
  assumes "s_quiz_id s \<in> set (map qh_id (quiz_history d))"
  shows "submit_quiz hash now s d = (Inl (HTTPException 500), d)"
  using assms
  by (simp add: submit_quiz_def submit_quiz_body_def insert_quiz_history_def
      except_Exception_def)

theorem submit_quiz_duplicate_id_witness:
  "s_quiz_id ex_submission \<in> set (map qh_id (quiz_history \<lparr>users = [], quiz_history = [ex_row]\<rparr>)) \<and>
   submit_quiz ex_hash ex_now ex_submission \<lparr>users = [], quiz_history = [ex_row]\<rparr> =
     (Inl (HTTPException 500), \<lparr>users = [], quiz_history = [ex_row]\<rparr>)"
proof -
  have h: "s_quiz_id ex_submission \<in>
             set (map qh_id (quiz_history \<lparr>users = [], quiz_history = [ex_row]\<rparr>))"
    by (simp add: ex_submission_def ex_row_def)
  show ?thesis
    using h submit_quiz_duplicate_id [OF h, of ex_hash ex_now] by simp
qed

subsection \<open>User creation and statistics\<close>

lemma submit_quiz_Inl:
  assumes "submit_quiz hash now s d = (Inl e, d')"
  shows "d' = d"
  using assms
  by (auto simp: submit_quiz_def submit_quiz_body_def insert_quiz_history_def
      except_Exception_def Let_def split: if_splits)

lemma create_user_Inr:
  assumes "create_user md5 dumps now user d = (Inr r, d')"
  shows "md5 (usr_name user @ now) \<notin> set (map u_id (users d))"
    and "r = \<lparr>cu_user_id = md5 (usr_name user @ now),
               cu_message = ''User created successfully''\<rparr>"
    and "d' = d\<lparr>users := users d @
               [\<lparr>u_id = md5 (usr_name user @ now), u_name = usr_name user,
                 u_subjects = dumps (usr_subjects user), u_level = 1, u_xp = 0\<rparr>]\<rparr>"
  using assms
  by (auto simp: create_user_def create_user_body_def insert_user_def
      except_Exception_def Let_def split: if_splits)

lemma create_user_Inl:
  assumes "create_user md5 dumps now user d = (Inl e, d')"
  shows "d' = d"
  using assms
  by (auto simp: create_user_def create_user_body_def insert_user_def
      except_Exception_def Let_def split: if_splits)

lemma find_fresh_append:
  "k \<notin> set (map f xs) \<Longrightarrow> f y = k \<Longrightarrow> find (\<lambda>r. f r = k) (xs @ [y]) = Some y"
  by (induction xs) auto

lemma select_subject_stats_none:
  assumes "user_id \<notin> set (map qh_user_id (quiz_history d))"
  shows "select_subject_stats user_id d = []"
proof -
  have "filter (\<lambda>r. qh_user_id r = user_id) (quiz_history d) = []"
    using assms by (auto simp: filter_empty_conv)
  then show ?thesis by (simp add: select_subject_stats_def)
qed

lemma select_subject_stats_some:
  assumes "user_id \<in> set (map qh_user_id (quiz_history d))"
  shows "select_subject_stats user_id d \<noteq> []"
proof -
  let ?rows = "filter (\<lambda>r. qh_user_id r = user_id) (quiz_history d)"
  from assms have "?rows \<noteq> []" by (auto simp: filter_empty_conv)
  then have "remdups (map qh_subject ?rows) \<noteq> []" by simp
  then have "length (sort (remdups (map qh_subject ?rows))) \<noteq> 0" by simp
  then have "sort (remdups (map qh_subject ?rows)) \<noteq> []" by (simp del: length_sort)
  then show ?thesis by (simp add: select_subject_stats_def Let_def)
qed

lemma ex_early_submit:
  "submit_quiz ex_hash ''2024-04-30 09:00:00'' ex_early_submission init_db =
     (Inr \<lparr>score = 76, total_questions = 1, percentage = 76, message = ''Keep practicing!'',
           xp_earned = 7\<rparr>,
      \<lparr>users = [], quiz_history = [ex_early_row]\<rparr>)"
  by (simp add: submit_quiz_def submit_quiz_body_def insert_quiz_history_def
      except_Exception_def quiz_score_def ex_hash_def ex_early_submission_def
      ex_early_row_def init_db_def isoformat_def)

lemma ex_create:
  "create_user ex_md5 ex_dumps ex_now ex_user \<lparr>users = [], quiz_history = q\<rparr> =
     (Inr ex_create_response, \<lparr>users = [ex_users_row], quiz_history = q\<rparr>)"
  by (simp add: create_user_def create_user_body_def insert_user_def except_Exception_def
      Let_def ex_md5_def ex_now_def ex_user_def ex_users_row_def ex_create_response_def)

text \<open>
  C1. The code at the claim's input: for an identifier that has no row in \<open>users\<close>
  (here on the database that \<^verbatim>\<open>init_db\<close> leaves) the body raises the exception of
  status 404, and the handler answers with status 500.
\<close>

theorem get_user_stats_never_created:
  "select_user ''never-created'' init_db = None \<and>
   get_user_stats_body ''never-created'' init_db = Inl (HTTPException 404) \<and>
   get_user_stats ''never-created'' init_db = Inl (HTTPException 500)"
  by (simp add: get_user_stats_def get_user_stats_body_def select_user_def
      select_subject_stats_def except_Exception_def init_db_def)

text \<open>
  C7, as amended. When a user creation returns an identifier, the statistics of that
  identifier, requested at once, succeed and give the created name, level 1 and xp 0,
  whatever the \<open>quiz_history\<close> table holds; and their list of subjects is empty exactly
  when no \<open>quiz_history\<close> row carries the identifier as its user.
\<close>

theorem create_user_then_stats:
  assumes "create_user md5 dumps now user d = (Inr r, d')"
  shows "\<exists>stats.
           get_user_stats (cu_user_id r) d' =
             Inr \<lparr>sr_user_id = cu_user_id r, sr_name = usr_name user, sr_level = 1,
                  sr_xp = 0, subject_stats = stats\<rparr> \<and>
           stats = select_subject_stats (cu_user_id r) d' \<and>
           (stats = [] \<longleftrightarrow> cu_user_id r \<notin> set (map qh_user_id (quiz_history d')))"
proof -
  let ?uid = "md5 (usr_name user @ now)"
  let ?row = "\<lparr>u_id = ?uid, u_name = usr_name user,
                u_subjects = dumps (usr_subjects user), u_level = 1, u_xp = 0\<rparr>"
  note c = create_user_Inr[OF assms]
  have uid: "cu_user_id r = ?uid" using c(2) by simp
  have "select_user ?uid d' = Some ?row"
    unfolding select_user_def using c(1) c(3) by (simp add: find_fresh_append)
  then have "get_user_stats ?uid d' =
               Inr \<lparr>sr_user_id = ?uid, sr_name = usr_name user, sr_level = 1, sr_xp = 0,
                    subject_stats = select_subject_stats ?uid d'\<rparr>"
    by (simp add: get_user_stats_def get_user_stats_body_def except_Exception_def)
  moreover have "select_subject_stats ?uid d' = [] \<longleftrightarrow>
                   ?uid \<notin> set (map qh_user_id (quiz_history d'))"
    using select_subject_stats_none[of ?uid d'] select_subject_stats_some[of ?uid d']
    by blast
  ultimately show ?thesis using uid by simp
qed

theorem create_user_then_stats_witness:
  "create_user ex_md5 ex_dumps ex_now ex_user \<lparr>users = [], quiz_history = []\<rparr> =
     (Inr ex_create_response, \<lparr>users = [ex_users_row], quiz_history = []\<rparr>) \<and>
   cu_user_id ex_create_response \<notin>
     set (map qh_user_id (quiz_history \<lparr>users = [ex_users_row], quiz_history = []\<rparr>)) \<and>
   get_user_stats (cu_user_id ex_create_response) \<lparr>users = [ex_users_row], quiz_history = []\<rparr> =
     Inr \<lparr>sr_user_id = cu_user_id ex_create_response, sr_name = usr_name ex_user,
          sr_level = 1, sr_xp = 0, subject_stats = []\<rparr> \<and>
   create_user ex_md5 ex_dumps ex_now ex_user \<lparr>users = [], quiz_history = [ex_early_row]\<rparr> =
     (Inr ex_create_response, \<lparr>users = [ex_users_row], quiz_history = [ex_early_row]\<rparr>) \<and>
   cu_user_id ex_create_response \<in>
     set (map qh_user_id
            (quiz_history \<lparr>users = [ex_users_row], quiz_history = [ex_early_row]\<rparr>)) \<and>
   (\<exists>stats.
      get_user_stats (cu_user_id ex_create_response)
          \<lparr>users = [ex_users_row], quiz_history = [ex_early_row]\<rparr> =
        Inr \<lparr>sr_user_id = cu_user_id ex_create_response, sr_name = usr_name ex_user,
             sr_level = 1, sr_xp = 0, subject_stats = stats\<rparr> \<and>
      stats \<noteq> [])"
proof -
  have h0: "cu_user_id ex_create_response \<notin>
             set (map qh_user_id (quiz_history \<lparr>users = [ex_users_row], quiz_history = []\<rparr>))"
    by simp
  have h1: "cu_user_id ex_create_response \<in>
             set (map qh_user_id
                    (quiz_history \<lparr>users = [ex_users_row], quiz_history = [ex_early_row]\<rparr>))"
    by (simp add: ex_create_response_def ex_early_row_def)
  show ?thesis
    using h0 h1 ex_create[of "[]"] ex_create[of "[ex_early_row]"]
      create_user_then_stats [OF ex_create[of "[]"]]
      create_user_then_stats [OF ex_create[of "[ex_early_row]"]]
    by auto
qed

text \<open>
  C7 as stated fails: a quiz is submitted under the identifier before the user of that
  identifier is created (a submission takes any text as user identifier); then the user
  is created, and the statistics requested at once list the subject of that quiz.
\<close>

theorem create_user_then_stats_counterexample:
  "submit_quiz ex_hash ''2024-04-30 09:00:00'' ex_early_submission init_db =
     (Inr \<lparr>score = 76, total_questions = 1, percentage = 76, message = ''Keep practicing!'',
           xp_earned = 7\<rparr>,
      \<lparr>users = [], quiz_history = [ex_early_row]\<rparr>) \<and>
   create_user ex_md5 ex_dumps ex_now ex_user \<lparr>users = [], quiz_history = [ex_early_row]\<rparr> =
     (Inr ex_create_response, \<lparr>users = [ex_users_row], quiz_history = [ex_early_row]\<rparr>) \<and>
   get_user_stats (cu_user_id ex_create_response)
       \<lparr>users = [ex_users_row], quiz_history = [ex_early_row]\<rparr> =
     Inr \<lparr>sr_user_id = ''4bfbe63fe92bb98ccd36f9deffbeb3cf'', sr_name = ''Ana'',
          sr_level = 1, sr_xp = 0,
          subject_stats =
            [\<lparr>st_subject = ''Math'', st_average_score = 76, st_quiz_count = 1\<rparr>]\<rparr>"
proof -
  have "get_user_stats (cu_user_id ex_create_response)
          \<lparr>users = [ex_users_row], quiz_history = [ex_early_row]\<rparr> =
        Inr \<lparr>sr_user_id = ''4bfbe63fe92bb98ccd36f9deffbeb3cf'', sr_name = ''Ana'',
             sr_level = 1, sr_xp = 0,
             subject_stats =
               [\<lparr>st_subject = ''Math'', st_average_score = 76, st_quiz_count = 1\<rparr>]\<rparr>"
    by (simp add: get_user_stats_def get_user_stats_body_def select_user_def
        select_subject_stats_def except_Exception_def ex_create_response_def
        ex_users_row_def ex_early_row_def)
  then show ?thesis
    using ex_early_submit ex_create[of "[ex_early_row]"] by simp
qed

subsection \<open>The rows of \<open>users\<close>\<close>

lemma submit_quiz_users: "users (snd (submit_quiz hash now s d)) = users d"
proof (cases "submit_quiz hash now s d")
  case (Pair r d')
  then show ?thesis
    by (cases r) (use submit_quiz_Inl submit_quiz_Inr(3) in fastforce)+
qed

lemma create_user_users: "\<exists>new. users (snd (create_user md5 dumps now u d)) = users d @ new"
proof (cases "create_user md5 dumps now u d")
  case (Pair r d')
  show ?thesis
  proof (cases r)
    case (Inl e)
    with Pair create_user_Inl show ?thesis by fastforce
  next
    case (Inr v)
    with Pair create_user_Inr(3)[of md5 dumps now u d v d'] show ?thesis by simp
  qed
qed

lemma handle_users: "\<exists>new. users (snd (handle x now rq d)) = users d @ new"
proof (cases rq)
  case (SubmitQuiz s)
  then show ?thesis
    using submit_quiz_users[of "x_hash x" now s d]
    by (cases "submit_quiz (x_hash x) now s d") simp
next
  case (CreateUser u)
  then show ?thesis
    using create_user_users[of "x_md5 x" "x_dumps x" now u d]
    by (cases "create_user (x_md5 x) (x_dumps x) now u d") simp
qed simp_all

lemma serve_users: "\<exists>new. users (serve x rqs d) = users d @ new"
proof (induction rqs arbitrary: d)
  case Nil
  then show ?case by simp
next
  case (Cons a rqs)
  obtain now rq where a: "a = (now, rq)" by (cases a)
  obtain n1 where 1: "users (snd (handle x now rq d)) = users d @ n1"
    using handle_users by blast
  obtain n2 where 2:
    "users (serve x rqs (snd (handle x now rq d))) = users (snd (handle x now rq d)) @ n2"
    using Cons.IH by blast
  show ?case using a 1 2 by simp
qed

text \<open>
  C8. After any run of requests, the \<open>users\<close> table is the table before the run, row by
  row and in place, followed by the rows created during the run; and a quiz submission
  leaves the whole table as it was, whether it returns a response or fails.
\<close>

theorem users_rows_never_mutated:
  "(\<exists>new. users (serve x rqs d) = users d @ new) \<and>
   users (snd (submit_quiz hash now s d)) = users d"
  using serve_users submit_quiz_users by blast

theorem users_rows_never_mutated_witness:
  "(\<exists>new. users (serve (ex_externals (\<lambda>s. Inl JSONDecodeError))
                  [(ex_now, SubmitQuiz ex_submission), (ex_now, GetUserStats ''u1'')]
                  \<lparr>users = [ex_users_row], quiz_history = []\<rparr>) =
            users \<lparr>users = [ex_users_row], quiz_history = []\<rparr> @ new) \<and>
   users (snd (submit_quiz ex_hash ex_now ex_submission
                 \<lparr>users = [ex_users_row], quiz_history = []\<rparr>)) = [ex_users_row]"
  using users_rows_never_mutated
          [of "ex_externals (\<lambda>s. Inl JSONDecodeError)"
              "[(ex_now, SubmitQuiz ex_submission), (ex_now, GetUserStats ''u1'')]"
              "\<lparr>users = [ex_users_row], quiz_history = []\<rparr>" ex_hash ex_now ex_submission]
  by simp

subsection \<open>Quiz generation\<close>

text \<open>
  What \<open>re_search\<close> finds: the match starts at the first \<^verbatim>\<open>[\<close> of the text and ends at
  its last \<^verbatim>\<open>]\<close>; and it finds nothing exactly when no \<^verbatim>\<open>[\<close> of the text has a
  \<^verbatim>\<open>]\<close> behind it.
\<close>

lemma re_search_Some:
  assumes "re_search text = Some m"
  shows "\<exists>pre mid post. text = pre @ m @ post \<and> m = CHR ''['' # mid @ [CHR '']''] \<and>
           CHR ''['' \<notin> set pre \<and> CHR '']'' \<notin> set post"
proof -
  let ?P = "\<lambda>c. c \<noteq> CHR ''[''" and ?Q = "\<lambda>c. c \<noteq> CHR '']''"
  from assms obtain c rest where d: "dropWhile ?P text = c # rest"
    by (auto simp: re_search_def split: list.splits)
  from assms d have mem: "CHR '']'' \<in> set rest"
    and m: "m = c # rev (dropWhile ?Q (rev rest))"
    by (auto simp: re_search_def split: if_splits)
  have c: "c = CHR ''[''"
    using hd_dropWhile[of "?P" "text"] d by auto
  have tx: "text = takeWhile ?P text @ c # rest"
    using takeWhile_dropWhile_id[of "?P" "text"] d by simp
  from mem have "dropWhile ?Q (rev rest) \<noteq> []" by (simp add: dropWhile_eq_Nil_conv)
  then obtain b bs where b: "dropWhile ?Q (rev rest) = b # bs"
    by (cases "dropWhile ?Q (rev rest)") auto
  have bq: "b = CHR '']''" using hd_dropWhile[of "?Q" "rev rest"] b by auto
  have "rev (rev rest) = rev (takeWhile ?Q (rev rest) @ b # bs)"
    using takeWhile_dropWhile_id[of "?Q" "rev rest"] b by simp
  then have rest: "rest = rev bs @ [b] @ rev (takeWhile ?Q (rev rest))"
    by simp
  have 1: "text = takeWhile ?P text @ m @ rev (takeWhile ?Q (rev rest))"
    using tx rest m b by simp
  have 2: "m = CHR ''['' # rev bs @ [CHR '']'']" using m b c bq by simp
  have 3: "CHR ''['' \<notin> set (takeWhile ?P text)" by (auto dest: set_takeWhileD)
  have 4: "CHR '']'' \<notin> set (rev (takeWhile ?Q (rev rest)))" by (auto dest: set_takeWhileD)
  from 1 2 3 4 show ?thesis by blast
qed

lemma dropWhile_bracket_rest:
  "dropWhile (\<lambda>c. c \<noteq> CHR ''['') (pre @ CHR ''['' # xs) = c # rest \<Longrightarrow> set xs \<subseteq> set rest"
  by (induction pre) (auto split: if_splits)

lemma re_search_None:
  assumes "re_search text = None"
  shows "\<nexists>pre mid post. text = pre @ CHR ''['' # mid @ CHR '']'' # post"
proof
  assume "\<exists>pre mid post. text = pre @ CHR ''['' # mid @ CHR '']'' # post"
  then obtain pre mid post where t: "text = pre @ CHR ''['' # mid @ CHR '']'' # post"
    by blast
  let ?P = "\<lambda>c. c \<noteq> CHR ''[''"
  have "CHR ''['' \<in> set text" using t by simp
  then have "dropWhile ?P text \<noteq> []" by (simp add: dropWhile_eq_Nil_conv)
  then obtain c rest where d: "dropWhile ?P text = c # rest"
    by (cases "dropWhile ?P text") auto
  have "CHR '']'' \<in> set rest"
    using dropWhile_bracket_rest[of pre "mid @ CHR '']'' # post" c rest] d t by auto
  with d assms show False by (simp add: re_search_def)
qed

lemma re_search_None_iff:
  "re_search text = None \<longleftrightarrow>
     (\<nexists>pre mid post. text = pre @ CHR ''['' # mid @ CHR '']'' # post)"
proof
  assume "re_search text = None"
  then show "\<nexists>pre mid post. text = pre @ CHR ''['' # mid @ CHR '']'' # post"
    by (rule re_search_None)
next
  assume n: "\<nexists>pre mid post. text = pre @ CHR ''['' # mid @ CHR '']'' # post"
  show "re_search text = None"
  proof (cases "re_search text")
    case None
    then show ?thesis .
  next
    case (Some m)
    from re_search_Some[OF Some] obtain pre mid post
      where "text = pre @ m @ post" "m = CHR ''['' # mid @ [CHR '']'']" by blast
    then have "text = pre @ CHR ''['' # mid @ CHR '']'' # post" by simp
    with n show ?thesis by blast
  qed
qed

text \<open>The three ways through the handler once the language model has answered.\<close>

lemma generate_quiz_no_match:
  assumes "re_search text = None"
  shows "generate_quiz loads md5 now (Inr text) request =
           Inr \<lparr>quiz_id = md5 (q_user_id request @ now),
                questions = fallback_quiz (q_topic request),
                qz_subject = q_subject request, qz_topic = q_topic request,
                qz_difficulty = q_difficulty request\<rparr>"
  using assms by (simp add: generate_quiz_def generate_quiz_body_def except_Exception_def)

lemma generate_quiz_match_parsed:
  assumes "re_search text = Some json_match" and "loads json_match = Inr quiz_data"
  shows "generate_quiz loads md5 now (Inr text) request =
           Inr \<lparr>quiz_id = md5 (q_user_id request @ now), questions = quiz_data,
                qz_subject = q_subject request, qz_topic = q_topic request,
                qz_difficulty = q_difficulty request\<rparr>"
  using assms by (simp add: generate_quiz_def generate_quiz_body_def except_Exception_def)

lemma generate_quiz_match_unparsable:
  assumes "re_search text = Some json_match" and "loads json_match = Inl e"
  shows "generate_quiz loads md5 now (Inr text) request = Inl (HTTPException 500)"
  using assms by (simp add: generate_quiz_def generate_quiz_body_def except_Exception_def)

text \<open>
  C2. The code at an input of the claim: the model answers with a text whose bracketed
  part is no JSON. The search finds the part, \<^verbatim>\<open>json.loads\<close> raises on it, the body
  has no handler for that, and the request fails with status 500. No fallback question
  is returned; the fallback is returned when the text has no bracketed part at all.
\<close>

theorem generate_quiz_unparsable_match:
  "re_search ''I cannot write this quiz [see policy].'' = Some ''[see policy]'' \<and>
   ex_loads ''[see policy]'' = Inl JSONDecodeError \<and>
   generate_quiz_body ex_loads ex_md5 ex_now
       (Inr ''I cannot write this quiz [see policy].'') ex_quiz_request =
     Inl JSONDecodeError \<and>
   generate_quiz ex_loads ex_md5 ex_now
       (Inr ''I cannot write this quiz [see policy].'') ex_quiz_request =
     Inl (HTTPException 500) \<and>
   generate_quiz ex_loads ex_md5 ex_now (Inr ''I cannot write this quiz.'') ex_quiz_request =
     Inr \<lparr>quiz_id = ''8b748bd98b99a9d548c6eeec454fa264'',
          questions = fallback_quiz ''Fractions'',
          qz_subject = ''Math'', qz_topic = ''Fractions'', qz_difficulty = ''easy''\<rparr>"
  by (simp add: generate_quiz_def generate_quiz_body_def except_Exception_def re_search_def
      ex_loads_def ex_md5_def ex_now_def ex_quiz_request_def)

text \<open>
  C4, as amended. When the text from the first \<^verbatim>\<open>[\<close> to the last \<^verbatim>\<open>]\<close> of the
  model's answer parses as JSON, the handler returns the parsed value, as it is, as the
  questions.
\<close>

theorem generate_quiz_returns_parsed_match:
  assumes "re_search text = Some json_match" and "loads json_match = Inr quiz_data"
  shows "generate_quiz loads md5 now (Inr text) request =
           Inr \<lparr>quiz_id = md5 (q_user_id request @ now), questions = quiz_data,
                qz_subject = q_subject request, qz_topic = q_topic request,
                qz_difficulty = q_difficulty request\<rparr> \<and>
         (\<exists>pre mid post. text = pre @ json_match @ post \<and>
            json_match = CHR ''['' # mid @ [CHR '']''] \<and>
            CHR ''['' \<notin> set pre \<and> CHR '']'' \<notin> set post)"
  using assms re_search_Some[OF assms(1)]
    generate_quiz_match_parsed[of "text" json_match loads quiz_data md5 now request]
  by simp

theorem generate_quiz_returns_parsed_match_witness:
  "re_search ''Here is the quiz: [1]. Good luck!'' = Some ''[1]'' \<and>
   ex_loads ''[1]'' = Inr (JArray [JInt 1]) \<and>
   generate_quiz ex_loads ex_md5 ex_now (Inr ''Here is the quiz: [1]. Good luck!'')
       ex_quiz_request =
     Inr \<lparr>quiz_id = ex_md5 (q_user_id ex_quiz_request @ ex_now),
          questions = JArray [JInt 1],
          qz_subject = q_subject ex_quiz_request, qz_topic = q_topic ex_quiz_request,
          qz_difficulty = q_difficulty ex_quiz_request\<rparr> \<and>
   (\<exists>pre mid post. ''Here is the quiz: [1]. Good luck!'' = pre @ ''[1]'' @ post \<and>
      ''[1]'' = CHR ''['' # mid @ [CHR '']''] \<and>
      CHR ''['' \<notin> set pre \<and> CHR '']'' \<notin> set post)"
proof -
  have h1: "re_search ''Here is the quiz: [1]. Good luck!'' = Some ''[1]''"
    by (simp add: re_search_def)
  have h2: "ex_loads ''[1]'' = Inr (JArray [JInt 1])"
    by (simp add: ex_loads_def)
  show ?thesis
    using h1 h2
      generate_quiz_returns_parsed_match
        [of "''Here is the quiz: [1]. Good luck!''" "''[1]''" ex_loads "JArray [JInt 1]"
            ex_md5 ex_now ex_quiz_request]
    by blast
qed

text \<open>
  C4 as stated fails: the model's answer contains the JSON array \<^verbatim>\<open>[1]\<close>, and a second
  bracketed part behind it. The match runs from the first \<^verbatim>\<open>[\<close> to the last
  \<^verbatim>\<open>]\<close>, is no JSON, and the request fails with status 500.
\<close>

theorem generate_quiz_returns_parsed_match_counterexample:
  "ex_loads ''[1]'' = Inr (JArray [JInt 1]) \<and>
   re_search ''Quiz [1] and answers [2]'' = Some ''[1] and answers [2]'' \<and>
   ex_loads ''[1] and answers [2]'' = Inl JSONDecodeError \<and>
   generate_quiz ex_loads ex_md5 ex_now (Inr ''Quiz [1] and answers [2]'') ex_quiz_request =
     Inl (HTTPException 500)"
  by (simp add: generate_quiz_def generate_quiz_body_def except_Exception_def re_search_def
      ex_loads_def)

end
